theory Spec2Isabelle
  imports Main "HOL-Library.Word"
begin

section \<open>BSON values and the structs of gooplog.go\<close>

text \<open>
  \<open>bson.MongoTimestamp\<close> is a Go \<open>int64\<close>. \<open>bson.M\<close> is a string-keyed map; the
  documents built by the source have pairwise distinct keys and are written as
  association lists. \<open>bson.RegEx\<close> is a struct of a pattern and an options string.
\<close>

type_synonym MongoTimestamp = "64 word"

datatype bson =
    BTimestamp MongoTimestamp
  | BString string
  | BRegEx string string
  | BArray "bson list"
  | BDoc "(string \<times> bson) list"

type_synonym M = "(string \<times> bson) list"

text \<open>
  \<open>opLogTailerInfo\<close> (gooplog.go:38-42), \<open>ObjectId\<close> (44-46) and \<open>opLogEntry\<close>
  (48-55). The fields \<open>O\<close> and \<open>Id\<close> of the source are written \<open>O_doc\<close> and
  \<open>Id_str\<close>: both names are taken by HOL.
\<close>

record opLogTailerInfo =
  FilterRegex :: string
  StartReadingFromTime :: MongoTimestamp
  Label :: string

record ObjectId =
  Id_str :: string

record opLogEntry =
  Ts :: MongoTimestamp
  V :: string
  Op :: string
  Ns :: string
  O_doc :: M
  O2 :: ObjectId

text \<open>
  The documents the two structs are stored as, by their struct tags: the key of each
  field is its tag, and the fields of \<open>O2\<close> are inlined.
\<close>

definition info_doc :: "opLogTailerInfo \<Rightarrow> M" where
  "info_doc ti =
     [(''filterRegex'', BString (FilterRegex ti)),
      (''startReadingFromTime'', BTimestamp (StartReadingFromTime ti)),
      (''label'', BString (Label ti))]"

definition entry_doc :: "opLogEntry \<Rightarrow> M" where
  "entry_doc e =
     [(''ts'', BTimestamp (Ts e)),
      (''v'', BString (V e)),
      (''op'', BString (Op e)),
      (''ns'', BString (Ns e)),
      (''o'', BDoc (O_doc e)),
      (''_id'', BString (Id_str (O2 e)))]"

section \<open>The selector builder\<close>

text \<open>
  \<open>buildOpLogTailerInfoSelector\<close> (gooplog.go:111-120) and \<open>buildOpLogSelector\<close>
  (122-131) read the package variable \<open>tailerInfo\<close>; here it is their argument.
  \<open>bson.RegEx{tailerInfo.FilterRegex, ""}\<close> has the empty options string.
\<close>

definition buildOpLogTailerInfoSelector :: "opLogTailerInfo \<Rightarrow> M" where
  "buildOpLogTailerInfoSelector ti =
     [(''$and'', BArray
        [BDoc [(''filterRegex'', BString (FilterRegex ti))],
         BDoc [(''label'', BString (Label ti))]])]"

definition buildOpLogSelector :: "opLogTailerInfo \<Rightarrow> M" where
  "buildOpLogSelector ti =
     [(''$and'', BArray
        [BDoc [(''ts'', BDoc [(''$gt'', BTimestamp (StartReadingFromTime ti))])],
         BDoc [(''ns'', BDoc [(''$regex'', BRegEx (FilterRegex ti) [])])]])]"

section \<open>What a selector selects\<close>

text \<open>
  The store evaluates a selector, not the source. Its evaluation is written out for the
  operators the source emits: a field compared with a value for equality, a field under
  \<open>$gt\<close>, a field under \<open>$regex\<close>, and \<open>$and\<close> over a list of clauses. The store's
  order on timestamps (\<open>gt a b\<close>: \<open>a\<close> is after \<open>b\<close>) and its regular-expression
  engine (\<open>rx pattern options subject\<close>) are parameters.
\<close>

type_synonym ts_order = "MongoTimestamp \<Rightarrow> MongoTimestamp \<Rightarrow> bool"
type_synonym rx_engine = "string \<Rightarrow> string \<Rightarrow> string \<Rightarrow> bool"

definition matches_cond :: "ts_order \<Rightarrow> rx_engine \<Rightarrow> bson \<Rightarrow> bson \<Rightarrow> bool" where
  "matches_cond gt rx v c =
     (case c of
        BDoc [(k, arg)] \<Rightarrow>
          if k = ''$gt'' then
            (case (v, arg) of (BTimestamp a, BTimestamp b) \<Rightarrow> gt a b | _ \<Rightarrow> False)
          else if k = ''$regex'' then
            (case (v, arg) of (BString s, BRegEx p opts) \<Rightarrow> rx p opts s | _ \<Rightarrow> False)
          else v = c
      | _ \<Rightarrow> v = c)"

definition matches_fields :: "ts_order \<Rightarrow> rx_engine \<Rightarrow> M \<Rightarrow> M \<Rightarrow> bool" where
  "matches_fields gt rx d fs =
     list_all (\<lambda>(k, c). case map_of d k of None \<Rightarrow> False | Some v \<Rightarrow> matches_cond gt rx v c)
       fs"

definition matches_clause :: "ts_order \<Rightarrow> rx_engine \<Rightarrow> M \<Rightarrow> bson \<Rightarrow> bool" where
  "matches_clause gt rx d c = (case c of BDoc f \<Rightarrow> matches_fields gt rx d f | _ \<Rightarrow> False)"

definition matches :: "ts_order \<Rightarrow> rx_engine \<Rightarrow> M \<Rightarrow> M \<Rightarrow> bool" where
  "matches gt rx d sel =
     (case sel of
        [(k, BArray cs)] \<Rightarrow>
          if k = ''$and'' then list_all (matches_clause gt rx d) cs
          else matches_fields gt rx d sel
      | _ \<Rightarrow> matches_fields gt rx d sel)"

section \<open>NewOpLogTailer\<close>

text \<open>
  The package variables \<open>tailerInfoCollection\<close>, \<open>session\<close> and \<open>tailerInfo\<close>
  (gooplog.go:57-59). A session is known by the address it was dialled with, a collection
  handle by its session, database and collection names.
\<close>

type_synonym collection = "string \<times> string \<times> string"

record globals =
  tailerInfoCollection :: collection
  session :: string
  tailerInfo :: opLogTailerInfo

text \<open>
  The struct \<open>OpLogTailer\<close> (gooplog.go:30-34); its field \<open>session\<close> is written
  \<open>olt_session\<close>, apart from the package variable of the same name. A nil pointer is
  \<open>None\<close>. The type \<open>'h\<close> is that of the caller's \<open>OpLogger\<close>.
\<close>

record 'h OpLogTailer =
  collectionToTail :: "string option"
  olt_session :: "string option"
  opLogger :: 'h

text \<open>
  What the constructor meets outside the program: the clock (\<open>time.Now().Unix()\<close>), and
  the error results of \<open>DialWithTimeout\<close>, \<open>Count\<close>, \<open>Insert\<close> and \<open>One\<close>
  (\<open>None\<close> is Go's \<open>nil\<close>). The source tests the first two and drops the last two.
\<close>

record init_env =
  now_unix :: "64 word"
  dial_err :: "string option"
  count_err :: "string option"
  insert_err :: "string option"
  one_err :: "string option"

text \<open>The three \<open>log.Fatalf\<close> calls (gooplog.go:69, 85, 89): each ends the process.\<close>

datatype fatal = DialFailed | CountFailed | MultipleCheckpoints

text \<open>
  The documents of the collection \<open>opLogTailerInfo\<close> that a selector selects, in the
  collection's order: \<open>Count\<close> is their number, \<open>One\<close> reads the first.
\<close>

definition find_infos ::
  "ts_order \<Rightarrow> rx_engine \<Rightarrow> M \<Rightarrow> opLogTailerInfo list \<Rightarrow> opLogTailerInfo list" where
  "find_infos gt rx sel docs = filter (\<lambda>d. matches gt rx (info_doc d) sel) docs"

text \<open>
  \<open>NewOpLogTailer\<close> (gooplog.go:62-109). \<open>docs\<close> is the content of the collection
  \<open>gooplog.opLogTailerInfo\<close> when the constructor runs; the result carries the tailer,
  the package variables as the constructor leaves them, and the collection's new content.
  \<open>time.Now().Unix() << 32\<close> is a shift of an \<open>int64\<close>.
\<close>

definition NewOpLogTailer ::
  "ts_order \<Rightarrow> rx_engine \<Rightarrow> init_env \<Rightarrow> string \<Rightarrow> string \<Rightarrow> string \<Rightarrow> 'h \<Rightarrow>
   opLogTailerInfo list \<Rightarrow> fatal + ('h OpLogTailer \<times> globals \<times> opLogTailerInfo list)" where
  "NewOpLogTailer gt rx env url filterRegex label logger docs =
     (if dial_err env \<noteq> None then Inl DialFailed
      else
        let ti = \<lparr>FilterRegex = filterRegex,
                  StartReadingFromTime = push_bit 32 (now_unix env),
                  Label = label\<rparr>;
            found = find_infos gt rx (buildOpLogTailerInfoSelector ti) docs;
            count = length found;
            olt = \<lparr>collectionToTail = None, olt_session = None, opLogger = logger\<rparr>;
            g = \<lparr>tailerInfoCollection = (url, ''gooplog'', ''opLogTailerInfo''),
                 session = url, tailerInfo = ti\<rparr>
        in
          if count_err env \<noteq> None then Inl CountFailed
          else if count > 1 then Inl MultipleCheckpoints
          else if count = 0 then
            Inr (olt, g, if insert_err env = None then docs @ [ti] else docs)
          else
            Inr (olt,
                 g\<lparr>tailerInfo :=
                     (case found of
                        d # _ \<Rightarrow> if one_err env = None then d else ti
                      | [] \<Rightarrow> ti)\<rparr>,
                 docs))"

section \<open>Start\<close>

text \<open>
  A cursor is known by how it was opened: the collection, the selector given to
  \<open>Find\<close>, whether \<open>LogReplay\<close> was called, the \<open>Sort\<close> key, and the duration given
  to \<open>Tail\<close> in nanoseconds (\<open>-1\<close>: wait without bound; \<open>5 * time.Second\<close> is
  \<open>5000000000\<close>).
\<close>

record cursor =
  q_collection :: collection
  q_selector :: M
  q_logReplay :: bool
  q_sort :: string
  q_timeout :: int

text \<open>
  The two goroutines started for a fetched entry (gooplog.go:143-146 and 148-160). The
  first closes over the variable \<open>result\<close> and reads it when it runs; the second is
  passed a copy of \<open>result\<close>.
\<close>

datatype task = AdvanceTask | HandlerTask opLogEntry

text \<open>A call of a method of the \<open>OpLogger\<close> interface (gooplog.go:19-28).\<close>

datatype call = OnDelete M | OnUpdate M | OnInsert M

text \<open>\<open>Returned c\<close>: \<open>Start\<close> has returned the result of \<open>Close\<close> on cursor \<open>c\<close>.\<close>

datatype status = Running | Returned cursor

text \<open>
  The state of a run of \<open>Start\<close>: the package variables, the content of the collection
  \<open>opLogTailerInfo\<close>, the local variables \<open>iter\<close> and \<open>result\<close>, the goroutines
  started and not yet run, the handler calls made so far with the logger they were made
  on, and every cursor opened so far.
\<close>

record 'h tail_state =
  globs :: globals
  infos :: "opLogTailerInfo list"
  iter :: cursor
  result :: opLogEntry
  pending :: "task list"
  calls :: "('h \<times> call) list"
  opened :: "cursor list"
  status :: status

text \<open>
  The error \<open>iter.Err()\<close> reports after a failed \<open>iter.Next(&result)\<close>. \<open>Next\<close>
  decodes the document it has received into \<open>result\<close> before it looks for an error
  in it, so an error comes with what \<open>Next\<close> has left in \<open>result\<close>: \<open>Some r\<close>
  when it decoded a document (a server's error document decodes to the zero entry),
  \<open>None\<close> when it received none and left \<open>result\<close> as it was.
\<close>

type_synonym next_error = "string \<times> opLogEntry option"

text \<open>
  What happens next, from outside the loop: \<open>iter.Next(&result)\<close> returns true with an
  entry stored in \<open>result\<close>; or it returns false, and then \<open>iter.Err()\<close> and
  \<open>iter.Timeout()\<close> give the two values (a \<open>Next\<close> that timed out, or that found
  the cursor dead, has decoded nothing); or the scheduler runs the pending goroutine of
  the given index to its end, its \<open>Update\<close> (if it makes one) returning the given
  error.
\<close>

datatype event =
    NextTrue opLogEntry
  | NextFalse "next_error option" bool
  | Run nat "string option"

text \<open>The switch of the second goroutine (gooplog.go:149-159).\<close>

definition dispatch :: "opLogEntry \<Rightarrow> call list" where
  "dispatch r =
     (if Op r = ''u'' then [OnUpdate (O_doc r)]
      else if Op r = ''i'' then [OnInsert (O_doc r)]
      else if Op r = ''d'' then [OnDelete (O_doc r)]
      else [])"

text \<open>
  \<open>Update(selector, update)\<close> replaces the first document the selector selects; with
  none it returns an error, which the source drops.
\<close>

fun update_first :: "('a \<Rightarrow> bool) \<Rightarrow> 'a \<Rightarrow> 'a list \<Rightarrow> 'a list" where
  "update_first P y [] = []"
| "update_first P y (x # xs) = (if P x then y # xs else x # update_first P y xs)"

definition run_task ::
  "ts_order \<Rightarrow> rx_engine \<Rightarrow> 'h OpLogTailer \<Rightarrow> task \<Rightarrow> string option \<Rightarrow>
   'h tail_state \<Rightarrow> 'h tail_state" where
  "run_task gt rx olt t upd_err s =
     (case t of
        AdvanceTask \<Rightarrow>
          let ti = (tailerInfo (globs s))\<lparr>StartReadingFromTime := Ts (result s)\<rparr>;
              sel = [(''filterRegex'', BString (FilterRegex ti)),
                     (''label'', BString (Label ti))]
          in s\<lparr>globs := (globs s)\<lparr>tailerInfo := ti\<rparr>,
                infos := (if upd_err = None
                          then update_first (\<lambda>d. matches gt rx (info_doc d) sel) ti (infos s)
                          else infos s)\<rparr>
      | HandlerTask r \<Rightarrow>
          s\<lparr>calls := calls s @ map (Pair (opLogger olt)) (dispatch r)\<rparr>)"

definition reconnect_cursor :: "globals \<Rightarrow> cursor" where
  "reconnect_cursor g =
     \<lparr>q_collection = (session g, ''local'', ''oplog.rs''),
      q_selector = buildOpLogSelector (tailerInfo g),
      q_logReplay = False, q_sort = ''$natural'', q_timeout = 5 * 1000000000\<rparr>"

definition initial_cursor :: "globals \<Rightarrow> cursor" where
  "initial_cursor g =
     \<lparr>q_collection = (session g, ''local'', ''oplog.rs''),
      q_selector = buildOpLogSelector (tailerInfo g),
      q_logReplay = True, q_sort = ''$natural'', q_timeout = - 1\<rparr>"

text \<open>
  One step of a run of \<open>Start\<close> (gooplog.go:140-176). A started goroutine runs whether
  the loop has returned or not; the loop takes no further step once it has returned. A
  cursor yields only entries that the selector it was opened with selects: an event that
  names another entry is no step of the run. A \<open>Next\<close> that fails with an error has
  written \<open>result\<close> first when it decoded a document.
\<close>

definition step ::
  "ts_order \<Rightarrow> rx_engine \<Rightarrow> 'h OpLogTailer \<Rightarrow> 'h tail_state \<Rightarrow> event \<Rightarrow> 'h tail_state" where
  "step gt rx olt s ev =
     (case ev of
        Run i upd_err \<Rightarrow>
          if i < length (pending s)
          then run_task gt rx olt (pending s ! i) upd_err
                 (s\<lparr>pending := take i (pending s) @ drop (Suc i) (pending s)\<rparr>)
          else s
      | NextTrue r \<Rightarrow>
          if status s = Running \<and> matches gt rx (entry_doc r) (q_selector (iter s))
          then s\<lparr>result := r, pending := pending s @ [AdvanceTask, HandlerTask r]\<rparr>
          else s
      | NextFalse err timed_out \<Rightarrow>
          if status s \<noteq> Running then s
          else
            (case err of
               Some (msg, decoded) \<Rightarrow>
                 s\<lparr>result := (case decoded of None \<Rightarrow> result s | Some r \<Rightarrow> r),
                    status := Returned (iter s)\<rparr>
             | None \<Rightarrow>
                 if timed_out then s
                 else s\<lparr>iter := reconnect_cursor (globs s),
                        opened := opened s @ [reconnect_cursor (globs s)]\<rparr>))"

text \<open>The state in which \<open>Start\<close> enters its loop (gooplog.go:134-139).\<close>

definition start_state :: "globals \<Rightarrow> opLogTailerInfo list \<Rightarrow> 'h tail_state" where
  "start_state g docs =
     \<lparr>globs = g, infos = docs, iter = initial_cursor g,
      result = \<lparr>Ts = 0, V = [], Op = [], Ns = [], O_doc = [], O2 = \<lparr>Id_str = []\<rparr>\<rparr>,
      pending = [], calls = [], opened = [initial_cursor g], status = Running\<rparr>"

text \<open>
  \<open>Start\<close>, run on the package variables and the collection as they are when it is
  called, along a finite sequence of events: the state the run has reached.
\<close>

definition Start ::
  "ts_order \<Rightarrow> rx_engine \<Rightarrow> 'h OpLogTailer \<Rightarrow> globals \<Rightarrow> opLogTailerInfo list \<Rightarrow>
   event list \<Rightarrow> 'h tail_state" where
  "Start gt rx olt g docs evs = foldl (step gt rx olt) (start_state g docs) evs"

section \<open>A process that builds two tailers\<close>


section \<open>Values for concrete runs\<close>

text \<open>
  An order and an engine to run the definitions on: timestamps compared as unsigned
  64-bit numbers, and an engine that accepts, under no options, the subject equal to its
  pattern. The theorems below hold for every order and every engine.
\<close>

definition unsigned_after :: ts_order where
  "unsigned_after a b = (b < a)"

definition literal_rx :: rx_engine where
  "literal_rx p opts s = (opts = [] \<and> p = s)"

definition demo_env :: init_env where
  "demo_env = \<lparr>now_unix = 1700000000, dial_err = None, count_err = None,
                insert_err = None, one_err = None\<rparr>"

definition demo_info :: "string \<Rightarrow> string \<Rightarrow> MongoTimestamp \<Rightarrow> opLogTailerInfo" where
  "demo_info f l t = \<lparr>FilterRegex = f, StartReadingFromTime = t, Label = l\<rparr>"

definition demo_entry :: "MongoTimestamp \<Rightarrow> string \<Rightarrow> opLogEntry" where
  "demo_entry t k = \<lparr>Ts = t, V = ''2'', Op = k, Ns = ''shop.product'',
                      O_doc = [(''name'', BString ''tea'')], O2 = \<lparr>Id_str = ''p1''\<rparr>\<rparr>"

definition demo_globals :: globals where
  "demo_globals = \<lparr>tailerInfoCollection = (''mongodb://db'', ''gooplog'', ''opLogTailerInfo''),
                    session = ''mongodb://db'',
                    tailerInfo = demo_info ''shop.product'' ''simpleLogger'' 5\<rparr>"

definition demo_tailer :: "string OpLogTailer" where
  "demo_tailer = \<lparr>collectionToTail = None, olt_session = None, opLogger = ''simpleLogger''\<rparr>"

section \<open>Selector correctness\<close>

lemma matches_buildOpLogSelector:
  "matches gt rx (entry_doc e) (buildOpLogSelector ti) =
     (gt (Ts e) (StartReadingFromTime ti) \<and> rx (FilterRegex ti) [] (Ns e))"
  by (simp add: matches_def buildOpLogSelector_def matches_clause_def matches_fields_def
      matches_cond_def entry_doc_def)

lemma matches_buildOpLogTailerInfoSelector:
  "matches gt rx (info_doc d) (buildOpLogTailerInfoSelector ti) =
     (FilterRegex d = FilterRegex ti \<and> Label d = Label ti)"
  by (simp add: matches_def buildOpLogTailerInfoSelector_def matches_clause_def
      matches_fields_def matches_cond_def info_doc_def)

lemma find_infos_selector:
  "find_infos gt rx (buildOpLogTailerInfoSelector ti) docs =
     filter (\<lambda>d. FilterRegex d = FilterRegex ti \<and> Label d = Label ti) docs"
  by (simp add: find_infos_def matches_buildOpLogTailerInfoSelector)

lemma matches_update_selector:
  "matches gt rx (info_doc d) [(''filterRegex'', BString f), (''label'', BString l)] =
     (FilterRegex d = f \<and> Label d = l)"
  by (simp add: matches_def matches_fields_def matches_cond_def info_doc_def)

lemma demo_selected:
  "matches unsigned_after literal_rx (entry_doc (demo_entry t k))
     (buildOpLogSelector (demo_info ''shop.product'' l p)) = (p < t)"
  by (simp add: matches_buildOpLogSelector unsigned_after_def literal_rx_def demo_entry_def
      demo_info_def)

text \<open>
  C1. For every checkpoint \<open>ti\<close> and every entry \<open>e\<close>, the selector built by
  \<open>buildOpLogSelector\<close> selects \<open>e\<close> exactly when the position of \<open>e\<close> is after
  that of the checkpoint in the store's order and the namespace of \<open>e\<close> matches the
  filter pattern under the empty options string (no case-insensitive flag). The store's
  order being strict, an entry at the checkpoint's own position is not selected.
\<close>

theorem selector_correctness:
  assumes irrefl: "\<And>a. \<not> gt a a"
  shows "(matches gt rx (entry_doc e) (buildOpLogSelector ti) \<longleftrightarrow>
            gt (Ts e) (StartReadingFromTime ti) \<and> rx (FilterRegex ti) [] (Ns e)) \<and>
         (Ts e = StartReadingFromTime ti \<longrightarrow>
            \<not> matches gt rx (entry_doc e) (buildOpLogSelector ti))"
  using irrefl by (simp add: matches_buildOpLogSelector)

theorem selector_correctness_witness:
  "matches unsigned_after literal_rx (entry_doc (demo_entry 6 ''i''))
     (buildOpLogSelector (demo_info ''shop.product'' ''simpleLogger'' 5)) \<and>
   \<not> matches unsigned_after literal_rx (entry_doc (demo_entry 5 ''i''))
     (buildOpLogSelector (demo_info ''shop.product'' ''simpleLogger'' 5))"
proof -
  have irr: "\<And>a. \<not> unsigned_after a a"
    by (simp add: unsigned_after_def)
  have above: "matches unsigned_after literal_rx (entry_doc (demo_entry 6 ''i''))
     (buildOpLogSelector (demo_info ''shop.product'' ''simpleLogger'' 5))"
    using selector_correctness [of unsigned_after literal_rx "demo_entry 6 ''i''"
        "demo_info ''shop.product'' ''simpleLogger'' 5", OF irr]
    by (simp add: unsigned_after_def literal_rx_def demo_entry_def demo_info_def)
  have equal: "\<not> matches unsigned_after literal_rx (entry_doc (demo_entry 5 ''i''))
     (buildOpLogSelector (demo_info ''shop.product'' ''simpleLogger'' 5))"
    using selector_correctness [of unsigned_after literal_rx "demo_entry 5 ''i''"
        "demo_info ''shop.product'' ''simpleLogger'' 5", OF irr]
    by (simp add: unsigned_after_def demo_entry_def demo_info_def)
  from above equal show ?thesis by simp
qed

section \<open>Initialization\<close>

text \<open>
  C4. When the dial and the count succeed, \<open>NewOpLogTailer\<close> ends the process with the
  multiple-checkpoints failure exactly when more than one document of the collection
  has the given filter pattern and label; with none or one it returns a tailer.
\<close>

theorem multiple_checkpoints_iff:
  assumes "dial_err env = None" and "count_err env = None"
  shows "(NewOpLogTailer gt rx env url f l h docs = Inl MultipleCheckpoints \<longleftrightarrow>
            1 < length (filter (\<lambda>d. FilterRegex d = f \<and> Label d = l) docs)) \<and>
         ((\<exists>r. NewOpLogTailer gt rx env url f l h docs = Inr r) \<longleftrightarrow>
            length (filter (\<lambda>d. FilterRegex d = f \<and> Label d = l) docs) \<le> 1)"
  using assms by (auto simp add: NewOpLogTailer_def find_infos_selector Let_def)

theorem multiple_checkpoints_iff_witness:
  "NewOpLogTailer unsigned_after literal_rx demo_env ''mongodb://db'' ''p'' ''l'' ''h''
     [demo_info ''p'' ''l'' 1, demo_info ''q'' ''l'' 2, demo_info ''p'' ''l'' 3]
     = Inl MultipleCheckpoints \<and>
   NewOpLogTailer unsigned_after literal_rx demo_env ''mongodb://db'' ''p'' ''l'' ''h''
     [demo_info ''p'' ''l'' 1, demo_info ''q'' ''l'' 2] \<noteq> Inl MultipleCheckpoints"
proof -
  have e: "dial_err demo_env = None" "count_err demo_env = None"
    by (simp_all add: demo_env_def)
  show ?thesis
    using multiple_checkpoints_iff [OF e, of unsigned_after literal_rx "''mongodb://db''"
        "''p''" "''l''" "''h''"
        "[demo_info ''p'' ''l'' 1, demo_info ''q'' ''l'' 2, demo_info ''p'' ''l'' 3]"]
      multiple_checkpoints_iff [OF e, of unsigned_after literal_rx "''mongodb://db''"
        "''p''" "''l''" "''h''" "[demo_info ''p'' ''l'' 1, demo_info ''q'' ''l'' 2]"]
    by (simp add: demo_info_def)
qed

lemma push_bit_32_low: "take_bit 32 (push_bit 32 (w :: 64 word)) = 0"
  by (simp add: take_bit_push_bit)

lemma push_bit_32_high: "drop_bit 32 (push_bit 32 (w :: 64 word)) = take_bit 32 w"
  by (rule bit_word_eqI) (auto simp add: bit_simps)

text \<open>
  With the dial, the count, the insert and the read succeeding: when no document has
  the given filter pattern and label, \<open>NewOpLogTailer\<close> appends to the collection a
  record whose position is the clock's seconds shifted into the upper 32 bits of the
  timestamp (the lower 32 bits zero), and leaves that record in \<open>tailerInfo\<close>; when
  exactly one document has them, it leaves that document in \<open>tailerInfo\<close> and the
  collection as it was; and a second call that follows a successful first one, at
  whatever clock, gives the same tailer, the same package variables and the same
  collection as the first.
\<close>

theorem initialize_creates_or_reads:
  assumes ok: "dial_err env = None" "count_err env = None" "insert_err env = None"
      "one_err env = None"
    and ok': "dial_err env' = None" "count_err env' = None" "one_err env' = None"
  shows "(filter (\<lambda>d. FilterRegex d = f \<and> Label d = l) docs = [] \<longrightarrow>
            NewOpLogTailer gt rx env url f l h docs =
              Inr (\<lparr>collectionToTail = None, olt_session = None, opLogger = h\<rparr>,
                   \<lparr>tailerInfoCollection = (url, ''gooplog'', ''opLogTailerInfo''),
                    session = url,
                    tailerInfo = \<lparr>FilterRegex = f,
                                  StartReadingFromTime = push_bit 32 (now_unix env),
                                  Label = l\<rparr>\<rparr>,
                   docs @ [\<lparr>FilterRegex = f,
                            StartReadingFromTime = push_bit 32 (now_unix env),
                            Label = l\<rparr>]) \<and>
            drop_bit 32 (push_bit 32 (now_unix env)) = take_bit 32 (now_unix env) \<and>
            take_bit 32 (push_bit 32 (now_unix env)) = (0 :: 64 word)) \<and>
         (filter (\<lambda>d. FilterRegex d = f \<and> Label d = l) docs = [d] \<longrightarrow>
            NewOpLogTailer gt rx env url f l h docs =
              Inr (\<lparr>collectionToTail = None, olt_session = None, opLogger = h\<rparr>,
                   \<lparr>tailerInfoCollection = (url, ''gooplog'', ''opLogTailerInfo''),
                    session = url, tailerInfo = d\<rparr>,
                   docs)) \<and>
         (NewOpLogTailer gt rx env url f l h docs = Inr (olt, g, docs1) \<longrightarrow>
            NewOpLogTailer gt rx env' url f l h docs1 = Inr (olt, g, docs1))"
proof -
  let ?P = "\<lambda>d. FilterRegex d = f \<and> Label d = l"
  let ?ti = "\<lparr>FilterRegex = f, StartReadingFromTime = push_bit 32 (now_unix env), Label = l\<rparr>"
  have zero: "filter ?P docs = [] \<Longrightarrow> NewOpLogTailer gt rx env url f l h docs =
      Inr (\<lparr>collectionToTail = None, olt_session = None, opLogger = h\<rparr>,
           \<lparr>tailerInfoCollection = (url, ''gooplog'', ''opLogTailerInfo''),
            session = url, tailerInfo = ?ti\<rparr>, docs @ [?ti])"
    using ok by (simp add: NewOpLogTailer_def find_infos_selector Let_def)
  have one: "NewOpLogTailer gt rx e url f l h ds =
      Inr (\<lparr>collectionToTail = None, olt_session = None, opLogger = h\<rparr>,
           \<lparr>tailerInfoCollection = (url, ''gooplog'', ''opLogTailerInfo''),
            session = url, tailerInfo = x\<rparr>, ds)"
    if "filter ?P ds = [x]" "dial_err e = None" "count_err e = None" "one_err e = None"
    for e ds x
    using that by (simp add: NewOpLogTailer_def find_infos_selector Let_def)
  have twice: "NewOpLogTailer gt rx env' url f l h docs1 = Inr (olt, g, docs1)"
    if r: "NewOpLogTailer gt rx env url f l h docs = Inr (olt, g, docs1)"
  proof (cases "filter ?P docs")
    case Nil
    with zero r have eq: "olt = \<lparr>collectionToTail = None, olt_session = None, opLogger = h\<rparr>"
      "g = \<lparr>tailerInfoCollection = (url, ''gooplog'', ''opLogTailerInfo''),
            session = url, tailerInfo = ?ti\<rparr>" "docs1 = docs @ [?ti]"
      by simp_all
    have "filter ?P docs1 = [?ti]" using Nil eq by simp
    from one [OF this ok'] eq show ?thesis by simp
  next
    case (Cons x xs)
    show ?thesis
    proof (cases xs)
      case Nil
      with Cons have f1: "filter ?P docs = [x]" by simp
      from one [OF f1 ok(1,2,4)] r have eq:
        "olt = \<lparr>collectionToTail = None, olt_session = None, opLogger = h\<rparr>"
        "g = \<lparr>tailerInfoCollection = (url, ''gooplog'', ''opLogTailerInfo''),
              session = url, tailerInfo = x\<rparr>" "docs1 = docs"
        by simp_all
      from one [OF f1 ok'] eq show ?thesis by simp
    next
      case (Cons y ys)
      with \<open>filter ?P docs = x # xs\<close> have "1 < length (filter ?P docs)" by simp
      with r ok show ?thesis
        by (simp add: NewOpLogTailer_def find_infos_selector Let_def)
    qed
  qed
  show ?thesis
    using zero one [of docs d env] ok twice
    by (simp add: push_bit_32_low push_bit_32_high)
qed

theorem initialize_creates_or_reads_witness:
  "NewOpLogTailer unsigned_after literal_rx demo_env ''mongodb://db'' ''orders'' ''etl1''
     ''simpleLogger'' [] =
     Inr (demo_tailer,
          \<lparr>tailerInfoCollection = (''mongodb://db'', ''gooplog'', ''opLogTailerInfo''),
           session = ''mongodb://db'',
           tailerInfo = demo_info ''orders'' ''etl1'' (push_bit 32 1700000000)\<rparr>,
          [demo_info ''orders'' ''etl1'' (push_bit 32 1700000000)]) \<and>
   NewOpLogTailer unsigned_after literal_rx (demo_env\<lparr>now_unix := 1700000999\<rparr>)
     ''mongodb://db'' ''orders'' ''etl1'' ''simpleLogger''
     [demo_info ''orders'' ''etl1'' (push_bit 32 1700000000)] =
     Inr (demo_tailer,
          \<lparr>tailerInfoCollection = (''mongodb://db'', ''gooplog'', ''opLogTailerInfo''),
           session = ''mongodb://db'',
           tailerInfo = demo_info ''orders'' ''etl1'' (push_bit 32 1700000000)\<rparr>,
          [demo_info ''orders'' ''etl1'' (push_bit 32 1700000000)])"
proof -
  let ?later = "demo_env\<lparr>now_unix := 1700000999\<rparr>"
  have ok: "dial_err demo_env = None" "count_err demo_env = None" "insert_err demo_env = None"
    "one_err demo_env = None"
    by (simp_all add: demo_env_def)
  have ok': "dial_err ?later = None" "count_err ?later = None" "one_err ?later = None"
    by (simp_all add: demo_env_def)
  have none: "filter (\<lambda>d. FilterRegex d = ''orders'' \<and> Label d = ''etl1'') [] = []"
    by simp
  note t = initialize_creates_or_reads [OF ok ok', where f = "''orders''" and l = "''etl1''"
      and docs = "[]" and gt = unsigned_after and rx = literal_rx and url = "''mongodb://db''"
      and h = "''simpleLogger''"]
  have first: "NewOpLogTailer unsigned_after literal_rx demo_env ''mongodb://db'' ''orders'' ''etl1''
     ''simpleLogger'' [] =
     Inr (demo_tailer,
          \<lparr>tailerInfoCollection = (''mongodb://db'', ''gooplog'', ''opLogTailerInfo''),
           session = ''mongodb://db'',
           tailerInfo = demo_info ''orders'' ''etl1'' (push_bit 32 1700000000)\<rparr>,
          [demo_info ''orders'' ''etl1'' (push_bit 32 1700000000)])"
    using t [THEN conjunct1] none
    by (simp add: demo_tailer_def demo_info_def demo_env_def)
  from t [THEN conjunct2, THEN conjunct2, rule_format, OF first] first
  show ?thesis by simp
qed

text \<open>
  C5. \<open>NewOpLogTailer\<close> tests the errors of \<open>DialWithTimeout\<close> and \<open>Count\<close> and
  drops those of \<open>Insert\<close> and \<open>One\<close> (gooplog.go:96, 102). On an empty collection
  with a failing \<open>Insert\<close> it returns a tailer whose position is the clock's, and the
  collection stays empty: nothing is persisted, and a second call at a later clock
  returns another position. On a collection that holds the one matching record at
  position 5, with a failing \<open>One\<close>, it returns the clock's position and not the
  stored record.
\<close>

theorem dropped_store_errors:
  "NewOpLogTailer unsigned_after literal_rx (demo_env\<lparr>insert_err := Some ''not master''\<rparr>)
     ''mongodb://db'' ''orders'' ''etl1'' ''simpleLogger'' [] =
     Inr (demo_tailer,
          \<lparr>tailerInfoCollection = (''mongodb://db'', ''gooplog'', ''opLogTailerInfo''),
           session = ''mongodb://db'',
           tailerInfo = demo_info ''orders'' ''etl1'' (push_bit 32 1700000000)\<rparr>,
          []) \<and>
   NewOpLogTailer unsigned_after literal_rx
     (demo_env\<lparr>now_unix := 1700000999, insert_err := Some ''not master''\<rparr>)
     ''mongodb://db'' ''orders'' ''etl1'' ''simpleLogger'' [] =
     Inr (demo_tailer,
          \<lparr>tailerInfoCollection = (''mongodb://db'', ''gooplog'', ''opLogTailerInfo''),
           session = ''mongodb://db'',
           tailerInfo = demo_info ''orders'' ''etl1'' (push_bit 32 1700000999)\<rparr>,
          []) \<and>
   demo_info ''orders'' ''etl1'' (push_bit 32 1700000000) \<noteq>
     demo_info ''orders'' ''etl1'' (push_bit 32 1700000999) \<and>
   NewOpLogTailer unsigned_after literal_rx (demo_env\<lparr>one_err := Some ''EOF''\<rparr>)
     ''mongodb://db'' ''orders'' ''etl1'' ''simpleLogger'' [demo_info ''orders'' ''etl1'' 5] =
     Inr (demo_tailer,
          \<lparr>tailerInfoCollection = (''mongodb://db'', ''gooplog'', ''opLogTailerInfo''),
           session = ''mongodb://db'',
           tailerInfo = demo_info ''orders'' ''etl1'' (push_bit 32 1700000000)\<rparr>,
          [demo_info ''orders'' ''etl1'' 5]) \<and>
   demo_info ''orders'' ''etl1'' (push_bit 32 1700000000) \<noteq> demo_info ''orders'' ''etl1'' 5"
  by (simp add: NewOpLogTailer_def find_infos_selector Let_def demo_env_def demo_info_def
      demo_tailer_def)

section \<open>The tailing loop\<close>

lemma run_task_keeps:
  "FilterRegex (tailerInfo (globs (run_task gt rx olt t u s))) =
     FilterRegex (tailerInfo (globs s)) \<and>
   Label (tailerInfo (globs (run_task gt rx olt t u s))) = Label (tailerInfo (globs s)) \<and>
   session (globs (run_task gt rx olt t u s)) = session (globs s) \<and>
   tailerInfoCollection (globs (run_task gt rx olt t u s)) = tailerInfoCollection (globs s) \<and>
   iter (run_task gt rx olt t u s) = iter s \<and>
   opened (run_task gt rx olt t u s) = opened s \<and>
   status (run_task gt rx olt t u s) = status s \<and>
   pending (run_task gt rx olt t u s) = pending s"
  by (cases t) (simp_all add: run_task_def Let_def)



lemma step_opened:
  "opened (step gt rx olt s ev) = opened s \<and> iter (step gt rx olt s ev) = iter s \<or>
   opened (step gt rx olt s ev) = opened s @ [reconnect_cursor (globs s)] \<and>
   iter (step gt rx olt s ev) = reconnect_cursor (globs s)"
  by (cases ev) (simp_all add: step_def run_task_keeps split: option.splits prod.splits)

lemma foldl_step_opened:
  "\<exists>cs. opened (foldl (step gt rx olt) s evs) = opened s @ cs \<and>
        list_all (\<lambda>c. q_timeout c = 5000000000) cs \<and>
        iter (foldl (step gt rx olt) s evs) = last (iter s # cs)"
proof (induction evs arbitrary: s)
  case Nil
  show ?case by simp
next
  case (Cons ev evs)
  let ?s1 = "step gt rx olt s ev"
  obtain cs where cs: "opened (foldl (step gt rx olt) ?s1 evs) = opened ?s1 @ cs"
    "list_all (\<lambda>c. q_timeout c = 5000000000) cs"
    "iter (foldl (step gt rx olt) ?s1 evs) = last (iter ?s1 # cs)"
    using Cons.IH [of ?s1] by blast
  from step_opened [of gt rx olt s ev] show ?case
  proof
    assume "opened ?s1 = opened s \<and> iter ?s1 = iter s"
    with cs show ?thesis by simp
  next
    assume a: "opened ?s1 = opened s @ [reconnect_cursor (globs s)] \<and>
      iter ?s1 = reconnect_cursor (globs s)"
    have "opened (foldl (step gt rx olt) s (ev # evs)) =
        opened s @ (reconnect_cursor (globs s) # cs)"
      using a cs by simp
    moreover have "list_all (\<lambda>c. q_timeout c = 5000000000) (reconnect_cursor (globs s) # cs)"
      using cs by (simp add: reconnect_cursor_def)
    moreover have "iter (foldl (step gt rx olt) s (ev # evs)) =
        last (iter s # reconnect_cursor (globs s) # cs)"
      using a cs by simp
    ultimately show ?thesis by blast
  qed
qed

lemma foldl_reconnects:
  "status s = Running \<Longrightarrow>
   status (foldl (step gt rx olt) s (replicate n (NextFalse None False))) = Running \<and>
   length (opened (foldl (step gt rx olt) s (replicate n (NextFalse None False)))) =
     length (opened s) + n \<and>
   globs (foldl (step gt rx olt) s (replicate n (NextFalse None False))) = globs s"
  by (induction n arbitrary: s) (simp_all add: step_def)

text \<open>
  C3, as the claim states it, fails: when \<open>iter.Next\<close> returns false and \<open>iter.Err()\<close>
  is an error, \<open>Start\<close> returns the result of closing the cursor; the loop has ended.
\<close>

theorem hard_error_returns_counterexample:
  "status (Start unsigned_after literal_rx demo_tailer demo_globals []
             [NextFalse (Some (''EOF'', None)) False]) = Returned (initial_cursor demo_globals)"
  by (simp add: Start_def step_def start_state_def)

text \<open>
  C3, amended. While the loop runs: when the cursor stops with no error and no timeout,
  the loop goes on with a new cursor, and it does so any number of times in a row. The
  selector of the new cursor is built from the package variable \<open>tailerInfo\<close> as it is
  then: it selects an entry exactly when the entry's position is after the position of
  \<open>tailerInfo\<close> and its namespace matches the filter pattern of \<open>tailerInfo\<close>. When
  the cursor stops with an error, whatever the error, \<open>Start\<close> returns the result of
  closing the cursor: no cursor is opened, and \<open>result\<close> holds what the failed
  \<open>Next\<close> left in it.
\<close>

theorem reconnect_or_return:
  assumes "status s = Running"
  shows "step gt rx olt s (NextFalse None False) =
           s\<lparr>iter := reconnect_cursor (globs s),
              opened := opened s @ [reconnect_cursor (globs s)]\<rparr> \<and>
         q_selector (reconnect_cursor (globs s)) = buildOpLogSelector (tailerInfo (globs s)) \<and>
         (matches gt rx (entry_doc e) (q_selector (reconnect_cursor (globs s))) \<longleftrightarrow>
            gt (Ts e) (StartReadingFromTime (tailerInfo (globs s))) \<and>
            rx (FilterRegex (tailerInfo (globs s))) [] (Ns e)) \<and>
         status (foldl (step gt rx olt) s (replicate n (NextFalse None False))) = Running \<and>
         length (opened (foldl (step gt rx olt) s (replicate n (NextFalse None False)))) =
           length (opened s) + n \<and>
         status (step gt rx olt s (NextFalse (Some (msg, decoded)) timed_out)) =
           Returned (iter s) \<and>
         iter (step gt rx olt s (NextFalse (Some (msg, decoded)) timed_out)) = iter s \<and>
         opened (step gt rx olt s (NextFalse (Some (msg, decoded)) timed_out)) = opened s \<and>
         result (step gt rx olt s (NextFalse (Some (msg, decoded)) timed_out)) =
           (case decoded of None \<Rightarrow> result s | Some r \<Rightarrow> r)"
  using assms foldl_reconnects [of s gt rx olt n]
  by (simp add: step_def reconnect_cursor_def matches_buildOpLogSelector)

theorem reconnect_or_return_witness:
  "status (Start unsigned_after literal_rx demo_tailer demo_globals []
             (replicate 3 (NextFalse None False))) = Running \<and>
   length (opened (Start unsigned_after literal_rx demo_tailer demo_globals []
             (replicate 3 (NextFalse None False)))) = 4 \<and>
   matches unsigned_after literal_rx (entry_doc (demo_entry 6 ''i''))
     (q_selector (reconnect_cursor demo_globals)) \<and>
   \<not> matches unsigned_after literal_rx (entry_doc (demo_entry 5 ''i''))
     (q_selector (reconnect_cursor demo_globals))"
proof -
  let ?s = "start_state demo_globals [] :: string tail_state"
  have run: "status ?s = Running"
    by (simp add: start_state_def)
  have one: "length (opened ?s) = 1"
    by (simp add: start_state_def)
  have g: "globs ?s = demo_globals"
    by (simp add: start_state_def)
  have p: "StartReadingFromTime (tailerInfo demo_globals) = 5"
    "FilterRegex (tailerInfo demo_globals) = ''shop.product''"
    "Ns (demo_entry t k) = ''shop.product''" "Ts (demo_entry t k) = t" for t k
    by (simp_all add: demo_globals_def demo_info_def demo_entry_def)
  have sel: "matches unsigned_after literal_rx (entry_doc (demo_entry t k))
      (q_selector (reconnect_cursor demo_globals)) = (5 < t)" for t k
    using reconnect_or_return [OF run, where gt = unsigned_after and rx = literal_rx
        and olt = demo_tailer and e = "demo_entry t k",
        THEN conjunct2, THEN conjunct2, THEN conjunct1]
    by (simp add: g p unsigned_after_def literal_rx_def)
  from reconnect_or_return [OF run, where gt = unsigned_after and rx = literal_rx
      and olt = demo_tailer and n = 3, THEN conjunct2, THEN conjunct2, THEN conjunct2]
    one sel [of 6] sel [of 5]
  show ?thesis
    unfolding Start_def by simp
qed

text \<open>
  C7. When \<open>iter.Next\<close> returns false with no error and \<open>iter.Timeout()\<close> true, the
  step leaves the whole state as it was: the same cursor, no cursor opened, the loop
  still running if it was.
\<close>

theorem soft_timeout_continues:
  "step gt rx olt s (NextFalse None True) = s"
  by (simp add: step_def)

theorem soft_timeout_continues_witness:
  "iter (Start unsigned_after literal_rx demo_tailer demo_globals []
           [NextFalse None False, NextFalse None True]) = reconnect_cursor demo_globals \<and>
   opened (Start unsigned_after literal_rx demo_tailer demo_globals []
           [NextFalse None False, NextFalse None True]) =
     [initial_cursor demo_globals, reconnect_cursor demo_globals] \<and>
   status (Start unsigned_after literal_rx demo_tailer demo_globals []
           [NextFalse None False, NextFalse None True]) = Running"
proof -
  let ?s = "Start unsigned_after literal_rx demo_tailer demo_globals [] [NextFalse None False]"
  have "Start unsigned_after literal_rx demo_tailer demo_globals []
           [NextFalse None False, NextFalse None True] =
        step unsigned_after literal_rx demo_tailer ?s (NextFalse None True)"
    by (simp add: Start_def)
  also have "\<dots> = ?s"
    by (rule soft_timeout_continues)
  finally show ?thesis
    by (simp add: Start_def step_def start_state_def)
qed

text \<open>
  C8. The cursor \<open>Start\<close> opens first waits without bound (\<open>Tail(-1)\<close>). Along every
  run, that cursor is the first one opened, every cursor opened after it waits five
  seconds, and the cursor in use is the last one opened. The cursor a reconnection
  opens carries the selector built from \<open>tailerInfo\<close> as the package variable is at
  that step: the document whose \<open>$gt\<close> bound is the position of \<open>tailerInfo\<close>, which
  selects an entry exactly when the entry's position is after that position and its
  namespace matches the filter pattern.
\<close>

theorem cursor_wait_windows:
  "q_timeout (initial_cursor g) = - 1 \<and>
   (\<exists>cs. opened (Start gt rx olt g docs evs) = initial_cursor g # cs \<and>
         list_all (\<lambda>c. q_timeout c = 5 * 1000000000) cs \<and>
         iter (Start gt rx olt g docs evs) = last (initial_cursor g # cs)) \<and>
   (status s = Running \<longrightarrow>
      iter (step gt rx olt s (NextFalse None False)) = reconnect_cursor (globs s)) \<and>
   q_selector (reconnect_cursor (globs s)) = buildOpLogSelector (tailerInfo (globs s)) \<and>
   q_timeout (reconnect_cursor (globs s)) = 5 * 1000000000 \<and>
   q_selector (reconnect_cursor (globs s)) =
     [(''$and'', BArray
        [BDoc [(''ts'', BDoc [(''$gt'',
           BTimestamp (StartReadingFromTime (tailerInfo (globs s))))])],
         BDoc [(''ns'', BDoc [(''$regex'',
           BRegEx (FilterRegex (tailerInfo (globs s))) [])])]])] \<and>
   (matches gt rx (entry_doc e) (q_selector (reconnect_cursor (globs s))) \<longleftrightarrow>
      gt (Ts e) (StartReadingFromTime (tailerInfo (globs s))) \<and>
      rx (FilterRegex (tailerInfo (globs s))) [] (Ns e))"
proof -
  obtain cs where "opened (Start gt rx olt g docs evs) = opened (start_state g docs :: 'a tail_state) @ cs"
    "list_all (\<lambda>c. q_timeout c = 5000000000) cs"
    "iter (Start gt rx olt g docs evs) = last (iter (start_state g docs :: 'a tail_state) # cs)"
    unfolding Start_def using foldl_step_opened [of gt rx olt "start_state g docs" evs] by blast
  then have "\<exists>cs. opened (Start gt rx olt g docs evs) = initial_cursor g # cs \<and>
         list_all (\<lambda>c. q_timeout c = 5 * 1000000000) cs \<and>
         iter (Start gt rx olt g docs evs) = last (initial_cursor g # cs)"
    by (simp add: start_state_def)
  moreover have "q_selector (reconnect_cursor (globs s)) =
      buildOpLogSelector (tailerInfo (globs s))"
    by (simp add: reconnect_cursor_def)
  moreover have "matches gt rx (entry_doc e) (buildOpLogSelector (tailerInfo (globs s))) \<longleftrightarrow>
      gt (Ts e) (StartReadingFromTime (tailerInfo (globs s))) \<and>
      rx (FilterRegex (tailerInfo (globs s))) [] (Ns e)"
    by (rule matches_buildOpLogSelector)
  moreover have "buildOpLogSelector (tailerInfo (globs s)) =
     [(''$and'', BArray
        [BDoc [(''ts'', BDoc [(''$gt'',
           BTimestamp (StartReadingFromTime (tailerInfo (globs s))))])],
         BDoc [(''ns'', BDoc [(''$regex'',
           BRegEx (FilterRegex (tailerInfo (globs s))) [])])]])]"
    by (simp add: buildOpLogSelector_def)
  ultimately show ?thesis
    by (simp add: initial_cursor_def reconnect_cursor_def step_def)
qed

theorem cursor_wait_windows_witness:
  "iter (Start unsigned_after literal_rx demo_tailer demo_globals []
           [NextTrue (demo_entry 9 ''i''), Run 0 None, NextFalse None False]) =
     \<lparr>q_collection = (''mongodb://db'', ''local'', ''oplog.rs''),
      q_selector = buildOpLogSelector (demo_info ''shop.product'' ''simpleLogger'' 9),
      q_logReplay = False, q_sort = ''$natural'', q_timeout = 5000000000\<rparr>"
proof -
  let ?s = "Start unsigned_after literal_rx demo_tailer demo_globals []
              [NextTrue (demo_entry 9 ''i''), Run 0 None]"
  have run: "status ?s = Running"
    by (simp add: Start_def step_def start_state_def run_task_def Let_def initial_cursor_def
        demo_globals_def demo_selected)
  have g: "session (globs ?s) = ''mongodb://db''"
    "tailerInfo (globs ?s) = demo_info ''shop.product'' ''simpleLogger'' 9"
    by (simp_all add: Start_def step_def start_state_def run_task_def Let_def initial_cursor_def
        demo_globals_def matches_buildOpLogSelector unsigned_after_def literal_rx_def
        demo_info_def demo_entry_def)
  have "iter (step unsigned_after literal_rx demo_tailer ?s (NextFalse None False)) =
      reconnect_cursor (globs ?s)"
    using cursor_wait_windows [where s = ?s and gt = unsigned_after and rx = literal_rx
        and olt = demo_tailer] run
    by blast
  moreover have "Start unsigned_after literal_rx demo_tailer demo_globals []
           [NextTrue (demo_entry 9 ''i''), Run 0 None, NextFalse None False] =
         step unsigned_after literal_rx demo_tailer ?s (NextFalse None False)"
    by (simp add: Start_def)
  ultimately show ?thesis
    by (simp only: reconnect_cursor_def g) simp
qed

section \<open>The dispatcher\<close>

text \<open>
  C2. A fetched entry (one the cursor's selector selects) starts a handler goroutine that
  holds a copy of the entry, and the fetch itself makes no handler call. Whenever that
  goroutine runs, it makes exactly one call, on the tailer's logger, with the entry's
  payload as it was fetched: \<open>OnInsert\<close> for \<open>i\<close>, \<open>OnUpdate\<close> for \<open>u\<close>,
  \<open>OnDelete\<close> for \<open>d\<close>; for any other operation kind it makes no call. In both
  cases the loop's status, its cursor, the package variables and the collection are left
  as they were.
\<close>

theorem dispatch_routing:
  assumes run: "status s = Running"
    and i: "i < length (pending s')" and t: "pending s' ! i = HandlerTask r"
  shows "step gt rx olt s (NextTrue r) =
           (if matches gt rx (entry_doc r) (q_selector (iter s))
            then s\<lparr>result := r, pending := pending s @ [AdvanceTask, HandlerTask r]\<rparr>
            else s) \<and>
         calls (step gt rx olt s' (Run i u)) =
           calls s' @
             (if Op r = ''i'' then [(opLogger olt, OnInsert (O_doc r))]
              else if Op r = ''u'' then [(opLogger olt, OnUpdate (O_doc r))]
              else if Op r = ''d'' then [(opLogger olt, OnDelete (O_doc r))]
              else []) \<and>
         status (step gt rx olt s' (Run i u)) = status s' \<and>
         iter (step gt rx olt s' (Run i u)) = iter s' \<and>
         globs (step gt rx olt s' (Run i u)) = globs s' \<and>
         infos (step gt rx olt s' (Run i u)) = infos s'"
  using run i t by (simp add: step_def run_task_def dispatch_def)

theorem dispatch_routing_witness:
  "calls (Start unsigned_after literal_rx demo_tailer demo_globals []
            [NextTrue (demo_entry 6 ''i''), Run 1 None]) =
     [(''simpleLogger'', OnInsert [(''name'', BString ''tea'')])] \<and>
   calls (Start unsigned_after literal_rx demo_tailer demo_globals []
            [NextTrue (demo_entry 6 ''n''), Run 1 None]) = [] \<and>
   status (Start unsigned_after literal_rx demo_tailer demo_globals []
            [NextTrue (demo_entry 6 ''n''), Run 1 None]) = Running"
proof -
  let ?s = "start_state demo_globals [] :: string tail_state"
  let ?fetch = "\<lambda>k. step unsigned_after literal_rx demo_tailer ?s (NextTrue (demo_entry 6 k))"
  have run: "status ?s = Running"
    by (simp add: start_state_def)
  have fetched: "calls (?fetch k) = []" "status (?fetch k) = Running"
    "1 < length (pending (?fetch k))" "pending (?fetch k) ! 1 = HandlerTask (demo_entry 6 k)"
    for k
    by (simp_all add: step_def start_state_def initial_cursor_def demo_globals_def
        demo_selected)
  have proj: "Op (demo_entry 6 k) = k" "O_doc (demo_entry 6 k) = [(''name'', BString ''tea'')]"
    "opLogger demo_tailer = ''simpleLogger''" for k
    by (simp_all add: demo_entry_def demo_tailer_def)
  have routed: "calls (step unsigned_after literal_rx demo_tailer (?fetch k) (Run 1 None)) =
      (if k = ''i'' then [(''simpleLogger'', OnInsert [(''name'', BString ''tea'')])]
       else if k = ''u'' then [(''simpleLogger'', OnUpdate [(''name'', BString ''tea'')])]
       else if k = ''d'' then [(''simpleLogger'', OnDelete [(''name'', BString ''tea'')])]
       else [])"
    "status (step unsigned_after literal_rx demo_tailer (?fetch k) (Run 1 None)) = Running"
    for k
    using dispatch_routing [OF run fetched(3) [of k] fetched(4) [of k],
        where gt = unsigned_after and rx = literal_rx and olt = demo_tailer and u = None,
        THEN conjunct2]
    by (simp_all only: fetched proj append_Nil)
  show ?thesis
    using routed [of "''i''"] routed [of "''n''"] by (simp add: Start_def)
qed

lemma advance_at_once:
  assumes "status s = Running" and "matches gt rx (entry_doc r) (q_selector (iter s))"
  shows "pending (step gt rx olt s (NextTrue r)) = pending s @ [AdvanceTask, HandlerTask r] \<and>
         StartReadingFromTime (tailerInfo (globs
           (step gt rx olt (step gt rx olt s (NextTrue r)) (Run (length (pending s)) u)))) = Ts r"
  using assms by (simp add: step_def run_task_def Let_def nth_append)

text \<open>
  C9. The advance goroutine is started for every fetched entry, whatever its operation
  kind, but it reads the variable \<open>result\<close> when it runs. Here an entry of kind \<open>n\<close>
  at position 6 is fetched, then an entry at position 7, and then the advance goroutine
  started for the first entry runs: the position in \<open>tailerInfo\<close> and in the stored
  record becomes 7, the position of the second entry, whose handler has not run.
\<close>

theorem advance_reads_shared_result:
  "pending (Start unsigned_after literal_rx demo_tailer demo_globals
              [demo_info ''shop.product'' ''simpleLogger'' 5]
              [NextTrue (demo_entry 6 ''n''), NextTrue (demo_entry 7 ''i'')]) =
     [AdvanceTask, HandlerTask (demo_entry 6 ''n''), AdvanceTask, HandlerTask (demo_entry 7 ''i'')] \<and>
   StartReadingFromTime (tailerInfo (globs
     (Start unsigned_after literal_rx demo_tailer demo_globals
        [demo_info ''shop.product'' ''simpleLogger'' 5]
        [NextTrue (demo_entry 6 ''n''), NextTrue (demo_entry 7 ''i''), Run 0 None]))) = 7 \<and>
   infos (Start unsigned_after literal_rx demo_tailer demo_globals
        [demo_info ''shop.product'' ''simpleLogger'' 5]
        [NextTrue (demo_entry 6 ''n''), NextTrue (demo_entry 7 ''i''), Run 0 None]) =
     [demo_info ''shop.product'' ''simpleLogger'' 7] \<and>
   calls (Start unsigned_after literal_rx demo_tailer demo_globals
        [demo_info ''shop.product'' ''simpleLogger'' 5]
        [NextTrue (demo_entry 6 ''n''), NextTrue (demo_entry 7 ''i''), Run 0 None]) = []"
  by (simp add: Start_def step_def start_state_def run_task_def Let_def demo_globals_def
      demo_info_def demo_entry_def initial_cursor_def matches_buildOpLogSelector
      matches_update_selector unsigned_after_def literal_rx_def)

lemma advance_after_failed_next:
  "StartReadingFromTime (tailerInfo (globs
     (Start unsigned_after literal_rx demo_tailer demo_globals
        [demo_info ''shop.product'' ''simpleLogger'' 5]
        [NextTrue (demo_entry 6 ''i''),
         NextFalse (Some (''cursor killed'',
           Some \<lparr>Ts = 0, V = [], Op = [], Ns = [], O_doc = [], O2 = \<lparr>Id_str = []\<rparr>\<rparr>)) False,
         Run 0 None]))) = 0"
  by (simp add: Start_def step_def start_state_def run_task_def Let_def demo_globals_def
      demo_info_def demo_entry_def initial_cursor_def matches_buildOpLogSelector
      matches_update_selector unsigned_after_def literal_rx_def)

text \<open>
  C6. An entry at position 6 is fetched, then an entry at position 8. The first fetch
  starts two goroutines and runs neither: no handler call is made and the position stays
  at 5. The two goroutines of the first entry reach the same state in either order, and
  the second fetch can come before both of them. When it does, the handler goroutine of
  the first entry still calls \<open>OnInsert\<close> with the first entry's payload, but the
  advance goroutine of the first entry writes position 8, the second entry's, to
  \<open>tailerInfo\<close> and to the stored record.
\<close>

theorem two_tasks_unordered_shared_result:
  "pending (Start unsigned_after literal_rx demo_tailer demo_globals
              [demo_info ''shop.product'' ''simpleLogger'' 5] [NextTrue (demo_entry 6 ''i'')]) =
     [AdvanceTask, HandlerTask (demo_entry 6 ''i'')] \<and>
   calls (Start unsigned_after literal_rx demo_tailer demo_globals
              [demo_info ''shop.product'' ''simpleLogger'' 5] [NextTrue (demo_entry 6 ''i'')]) = [] \<and>
   infos (Start unsigned_after literal_rx demo_tailer demo_globals
              [demo_info ''shop.product'' ''simpleLogger'' 5] [NextTrue (demo_entry 6 ''i'')]) =
     [demo_info ''shop.product'' ''simpleLogger'' 5] \<and>
   Start unsigned_after literal_rx demo_tailer demo_globals
     [demo_info ''shop.product'' ''simpleLogger'' 5]
     [NextTrue (demo_entry 6 ''i''), Run 0 None, Run 0 None] =
   Start unsigned_after literal_rx demo_tailer demo_globals
     [demo_info ''shop.product'' ''simpleLogger'' 5]
     [NextTrue (demo_entry 6 ''i''), Run 1 None, Run 0 None] \<and>
   pending (Start unsigned_after literal_rx demo_tailer demo_globals
              [demo_info ''shop.product'' ''simpleLogger'' 5]
              [NextTrue (demo_entry 6 ''i''), NextTrue (demo_entry 8 ''u'')]) =
     [AdvanceTask, HandlerTask (demo_entry 6 ''i''),
      AdvanceTask, HandlerTask (demo_entry 8 ''u'')] \<and>
   calls (Start unsigned_after literal_rx demo_tailer demo_globals
              [demo_info ''shop.product'' ''simpleLogger'' 5]
              [NextTrue (demo_entry 6 ''i''), NextTrue (demo_entry 8 ''u''),
               Run 1 None, Run 0 None]) =
     [(''simpleLogger'', OnInsert [(''name'', BString ''tea'')])] \<and>
   pending (Start unsigned_after literal_rx demo_tailer demo_globals
              [demo_info ''shop.product'' ''simpleLogger'' 5]
              [NextTrue (demo_entry 6 ''i''), NextTrue (demo_entry 8 ''u''),
               Run 1 None, Run 0 None]) =
     [AdvanceTask, HandlerTask (demo_entry 8 ''u'')] \<and>
   tailerInfo (globs (Start unsigned_after literal_rx demo_tailer demo_globals
              [demo_info ''shop.product'' ''simpleLogger'' 5]
              [NextTrue (demo_entry 6 ''i''), NextTrue (demo_entry 8 ''u''),
               Run 1 None, Run 0 None])) =
     demo_info ''shop.product'' ''simpleLogger'' 8 \<and>
   infos (Start unsigned_after literal_rx demo_tailer demo_globals
              [demo_info ''shop.product'' ''simpleLogger'' 5]
              [NextTrue (demo_entry 6 ''i''), NextTrue (demo_entry 8 ''u''),
               Run 1 None, Run 0 None]) =
     [demo_info ''shop.product'' ''simpleLogger'' 8]"
  by (simp add: Start_def step_def start_state_def run_task_def Let_def demo_globals_def
      demo_info_def demo_entry_def demo_tailer_def dispatch_def initial_cursor_def
      matches_buildOpLogSelector matches_update_selector unsigned_after_def literal_rx_def)

section \<open>What a tailer owns\<close>








end
